theory Spec2Isabelle
  imports Main
begin

section \<open>JavaScript values used by the two pages\<close>

text \<open>
  A JavaScript string is modelled as a \<^typ>\<open>string\<close>, one \<^typ>\<open>char\<close> per code unit
  (code units above 255 are outside the model). A value that may be \<open>undefined\<close> or
  \<open>null\<close> is a \<^typ>\<open>string option\<close>, with \<open>None\<close> for both.
\<close>

definition truthy :: "string option \<Rightarrow> bool" where
  \<comment> \<open>\<open>!!v\<close>: \<open>undefined\<close>, \<open>null\<close> and the empty string are falsy.\<close>
  "truthy v = (case v of None \<Rightarrow> False | Some s \<Rightarrow> s \<noteq> [])"

definition js_or :: "string option \<Rightarrow> string option \<Rightarrow> string option" where
  \<comment> \<open>\<open>a || b\<close>\<close>
  "js_or a b = (if truthy a then a else b)"

subsection \<open>The built-in \<open>parseInt\<close> with no radix argument\<close>

definition isWhiteSpace :: "char \<Rightarrow> bool" where
  "isWhiteSpace c = (c \<in> set [CHR 0x09, CHR 0x0A, CHR 0x0B, CHR 0x0C, CHR 0x0D, CHR 0x20, CHR 0xA0])"

definition digitValue :: "char \<Rightarrow> nat option" where
  "digitValue c =
     (let n = (of_char c :: nat) in
      if 48 \<le> n \<and> n \<le> 57 then Some (n - 48)
      else if 97 \<le> n \<and> n \<le> 122 then Some (n - 87)
      else if 65 \<le> n \<and> n \<le> 90 then Some (n - 55)
      else None)"

definition radixDigit :: "nat \<Rightarrow> char \<Rightarrow> bool" where
  "radixDigit R c = (case digitValue c of None \<Rightarrow> False | Some d \<Rightarrow> d < R)"

definition digitNat :: "char \<Rightarrow> nat" where
  "digitNat c = (case digitValue c of None \<Rightarrow> 0 | Some d \<Rightarrow> d)"

definition parseInt :: "string option \<Rightarrow> int option" where
  \<comment> \<open>\<open>None\<close> is \<open>NaN\<close>. The argument \<open>undefined\<close> is first converted to the string
      \<open>"undefined"\<close>. The rounding of integers beyond \<open>2^53\<close> to a double is not modelled:
      the pages only test the result with \<open>isNaN\<close> and hand it to the SDK.\<close>
  "parseInt v =
     (let s0 = dropWhile isWhiteSpace (case v of None \<Rightarrow> ''undefined'' | Some s \<Rightarrow> s);
          neg = (take 1 s0 = ''-'');
          s1 = (if take 1 s0 = ''+'' \<or> take 1 s0 = ''-'' then drop 1 s0 else s0);
          hex = (take 2 s1 = ''0x'' \<or> take 2 s1 = ''0X'');
          R = (if hex then 16 else 10);
          s2 = (if hex then drop 2 s1 else s1);
          Z = takeWhile (radixDigit R) s2
      in if Z = [] then None
         else Some ((if neg then - 1 else 1) * int (foldl (\<lambda>a c. a * R + digitNat c) 0 Z)))"

section \<open>The home page (\<open>src/app/page.tsx\<close>)\<close>

record home_state =
  fullName :: "string option"  \<comment> \<open>from the \<open>useUser\<close> hook\<close>
  roomIdInput :: string        \<comment> \<open>\<open>useState("")\<close>\<close>
  isPending :: bool            \<comment> \<open>\<open>useTransition\<close>\<close>
  pushed :: "string list"      \<comment> \<open>the routes given to \<open>router.push\<close>, oldest first\<close>

record room_controls =
  roomInputValue :: string
  connectDisabled :: bool
  connectLabel :: string
  createDisabled :: bool
  createLabel :: string

definition isRoomIdValid :: "home_state \<Rightarrow> bool" where
  "isRoomIdValid s = (length (roomIdInput s) > 0)"

definition render_home :: "home_state \<Rightarrow> room_controls option" where
  \<comment> \<open>The fragment guarded by \<open>fullName && fullName.length >= 3 && (...)\<close>; \<open>None\<close> when
      the guard is falsy and nothing is rendered in its place.\<close>
  "render_home s =
     (case fullName s of
        None \<Rightarrow> None
      | Some n \<Rightarrow>
          if n \<noteq> [] \<and> length n \<ge> 3
          then Some \<lparr> roomInputValue = roomIdInput s,
                      connectDisabled = (\<not> isRoomIdValid s \<or> isPending s),
                      connectLabel = (if isPending s then ''Connecting...'' else ''Connect''),
                      createDisabled = isPending s,
                      createLabel = (if isPending s then ''Creating Room...'' else ''Or Create Room'') \<rparr>
          else None)"

definition startTransition_push :: "string \<Rightarrow> home_state \<Rightarrow> home_state" where
  \<comment> \<open>\<open>startTransition(() => router.push(route))\<close>\<close>
  "startTransition_push route s = s\<lparr> isPending := True, pushed := pushed s @ [route] \<rparr>"

definition handleConnect :: "home_state \<Rightarrow> home_state" where
  "handleConnect s =
     (if roomIdInput s \<noteq> [] then startTransition_push (''/room/'' @ roomIdInput s) s else s)"

definition handleCreateRoom :: "string \<Rightarrow> home_state \<Rightarrow> home_state" where
  \<comment> \<open>The first argument is the value returned by \<open>uuid()\<close>.\<close>
  "handleCreateRoom newRoomId s = startTransition_push (''/room/'' @ newRoomId) s"

datatype home_event =
    ChangeName string
  | ChangeRoomId string
  | ClickConnect
  | ClickCreateRoom string  \<comment> \<open>carries what \<open>uuid()\<close> returns during the click\<close>

fun home_step :: "home_state \<Rightarrow> home_event \<Rightarrow> home_state" where
  "home_step s (ChangeName v) = s\<lparr> fullName := Some v \<rparr>"
| "home_step s (ChangeRoomId v) =
     (case render_home s of None \<Rightarrow> s | Some c \<Rightarrow> s\<lparr> roomIdInput := v \<rparr>)"
| "home_step s ClickConnect =
     (case render_home s of
        None \<Rightarrow> s
      | Some c \<Rightarrow> if connectDisabled c then s else handleConnect s)"
| "home_step s (ClickCreateRoom u) =
     (case render_home s of
        None \<Rightarrow> s
      | Some c \<Rightarrow> if createDisabled c then s else handleCreateRoom u s)"

definition home_mount :: home_state where
  \<comment> \<open>First render followed by the mount effect \<open>setFullName("")\<close>.\<close>
  "home_mount = \<lparr> fullName = Some [], roomIdInput = [], isPending = False, pushed = [] \<rparr>"

section \<open>The room page (\<open>src/app/room/[roomid]/page.tsx\<close>)\<close>

definition RETRY_DELAY :: nat where "RETRY_DELAY = 5000"
definition JOIN_TIMEOUT :: nat where "JOIN_TIMEOUT = 8000"
definition MEETING_DURATION :: nat where "MEETING_DURATION = 18000"
definition LEAVE_REDIRECT_DELAY :: nat where "LEAVE_REDIRECT_DELAY = 500"
definition MAX_RETRIES :: nat where "MAX_RETRIES = 3"

subsection \<open>What the page is given\<close>

text \<open>
  The route, the user name and the environment variables are fixed for one life of the
  page. The SDK is opaque. Each run of \<open>initializeMeeting\<close> that reaches the SDK is
  numbered, the widget it creates carries that number, and \<open>sdk env n\<close> says which of the
  three SDK calls of run \<open>n\<close> throws, if any. \<open>destroy\<close> and \<open>MediaStreamTrack.stop\<close> are
  taken to return normally.

  A function made by \<open>useCallback\<close> sees the \<open>retryCount\<close> of the render that made it. So
  \<open>initializeMeeting\<close>, the callbacks it hands to \<open>joinRoom\<close> and the timer callback take
  that count as the argument \<open>k\<close>, next to the state, which holds the current count.
  The SDK may call the callbacks of any widget that was given some, at any time; a run lists
  these calls as events.
\<close>

datatype sdk_outcome = Succeeds | TokenThrows | CreateThrows | JoinThrows

record room_env =
  searchParams :: "(string \<times> string) list"         \<comment> \<open>the URL query, in order\<close>
  params_roomid :: "string option"                   \<comment> \<open>\<open>paramsValue?.roomid\<close>\<close>
  user_fullName :: "string option"                   \<comment> \<open>\<open>fullName\<close> of the \<open>useUser\<close> hook\<close>
  NEXT_PUBLIC_ZEGO_APP_ID :: "string option"
  NEXT_PUBLIC_ZEGO_SERVER_SECRET :: "string option"
  sdk :: "nat \<Rightarrow> sdk_outcome"

definition roomId :: "room_env \<Rightarrow> string option" where
  \<comment> \<open>\<open>searchParams.get('roomID') || paramsValue?.roomid\<close>\<close>
  "roomId env = js_or (map_of (searchParams env) ''roomID'') (params_roomid env)"

subsection \<open>State, effects and timers\<close>

datatype user_name = GivenName string | UserAt nat  \<comment> \<open>\<open>fullName || "user" + Date.now()\<close>\<close>

datatype effect =
    StopTrack nat                                  \<comment> \<open>\<open>track.stop()\<close>\<close>
  | Destroy nat                                    \<comment> \<open>\<open>zegoRef.current.destroy()\<close>\<close>
  | GenerateKitToken "int option" "string option" string user_name nat
                                                   \<comment> \<open>\<open>generateKitTokenForTest\<close>: application id (\<open>None\<close> is \<open>NaN\<close>),
                                                       server secret, room, user name, duration; the user id
                                                       \<open>uuid()\<close> is left out\<close>
  | Create nat                                     \<comment> \<open>\<open>ZegoUIKitPrebuilt.create\<close>\<close>
  | JoinRoom nat string                            \<comment> \<open>\<open>joinRoom\<close>, with the path of the shared link\<close>
  | ConsoleError string
  | Enter_initializeMeeting "nat option"           \<comment> \<open>entry of \<open>initializeMeeting\<close>, with \<open>zegoRef.current\<close> there\<close>

datatype timer_action =
    RetryInit nat  \<comment> \<open>\<open>() => { cleanupMedia(); initializeMeeting(); }\<close> of the closure that saw this \<open>retryCount\<close>\<close>
  | Redirect       \<comment> \<open>\<open>() => { window.location.href = '/'; }\<close>\<close>

record room_state =
  zegoRef :: "nat option"                     \<comment> \<open>\<open>zegoRef.current\<close>: the widget held\<close>
  connectionError :: "string option"
  retryCount :: nat
  renderedRetryCount :: nat                   \<comment> \<open>the \<open>retryCount\<close> of the last render, which the current \<open>initializeMeeting\<close> closes over\<close>
  mounted :: bool
  unloaded :: bool                            \<comment> \<open>the document was left through \<open>window.location.href\<close>\<close>
  callbacks :: "(nat \<times> nat) list"          \<comment> \<open>widget \<open>\<mapsto>\<close> the \<open>retryCount\<close> its \<open>joinRoom\<close> callbacks close over\<close>
  timers :: "(nat \<times> timer_action) list"     \<comment> \<open>pending \<open>setTimeout\<close> calls with their due time, oldest first\<close>
  clock :: nat                                \<comment> \<open>milliseconds\<close>
  nextWidget :: nat
  deviceTracks :: "nat list option"           \<comment> \<open>\<open>navigator.mediaDevices?.getTracks\<close>, when it exists\<close>
  elementStreams :: "nat list option list"    \<comment> \<open>\<open>srcObject\<close> tracks of the video, then the audio elements\<close>
  trace :: "effect list"

definition emit :: "effect list \<Rightarrow> room_state \<Rightarrow> room_state" where
  "emit es s = s\<lparr> trace := trace s @ es \<rparr>"

definition setTimeout :: "timer_action \<Rightarrow> nat \<Rightarrow> room_state \<Rightarrow> room_state" where
  "setTimeout a delay s = s\<lparr> timers := timers s @ [(clock s + delay, a)] \<rparr>"

fun earliest :: "(nat \<times> 'a) list \<Rightarrow> (nat \<times> 'a) option" where
  "earliest [] = None"
| "earliest (t # ts) =
     (case earliest ts of
        None \<Rightarrow> Some t
      | Some u \<Rightarrow> if fst u < fst t then Some u else Some t)"

subsection \<open>\<open>cleanupMedia\<close>\<close>

definition cleanupMedia :: "room_state \<Rightarrow> room_state" where
  "cleanupMedia s =
     (let s1 = (case deviceTracks s of None \<Rightarrow> s | Some ts \<Rightarrow> emit (map StopTrack ts) s);
          s2 = emit (map StopTrack
                 (concat (map (\<lambda>src. case src of None \<Rightarrow> [] | Some ts \<Rightarrow> ts) (elementStreams s1)))) s1
      in case zegoRef s2 of
           None \<Rightarrow> s2
         | Some w \<Rightarrow> (emit [Destroy w] s2)\<lparr> zegoRef := None \<rparr>)"

definition handleLeaveRoom :: "room_state \<Rightarrow> room_state" where
  "handleLeaveRoom s = setTimeout Redirect LEAVE_REDIRECT_DELAY (cleanupMedia s)"

subsection \<open>\<open>initializeMeeting\<close> and the callbacks it hands to the SDK\<close>

datatype exn = Invalid_App_ID | Server_Secret_is_missing | Sdk_error

definition try_block :: "room_env \<Rightarrow> nat \<Rightarrow> room_state \<Rightarrow> (exn \<times> room_state) + room_state" where
  \<comment> \<open>The body of \<open>try\<close>, run by the closure that saw \<open>retryCount = k\<close>, reached only with a
      truthy room identifier. \<open>Inl\<close> is a throw, with the state at the throw.\<close>
  "try_block env k s =
     (case parseInt (NEXT_PUBLIC_ZEGO_APP_ID env) of
        None \<Rightarrow> Inl (Invalid_App_ID, s)
      | Some appID \<Rightarrow>
          (case NEXT_PUBLIC_ZEGO_SERVER_SECRET env of
             None \<Rightarrow> Inl (Server_Secret_is_missing, s)
           | Some serverSecret \<Rightarrow>
               if serverSecret = [] then Inl (Server_Secret_is_missing, s)
               else
                 let n = nextWidget s;
                     rid = (case roomId env of None \<Rightarrow> [] | Some r \<Rightarrow> r);
                     name = (if truthy (user_fullName env)
                             then GivenName (case user_fullName env of None \<Rightarrow> [] | Some f \<Rightarrow> f)
                             else UserAt (clock s));
                     s1 = emit [GenerateKitToken (Some appID) (Some serverSecret) rid name MEETING_DURATION]
                            (s\<lparr> nextWidget := Suc n \<rparr>)
                 in if sdk env n = TokenThrows then Inl (Sdk_error, s1)
                    else
                      let s2 = emit [Create n] s1
                      in if sdk env n = CreateThrows then Inl (Sdk_error, s2)
                         else
                           let s3 = s2\<lparr> zegoRef := Some n \<rparr>
                           in if mounted s3
                              then
                                let s4 = (emit [JoinRoom n (''/room/'' @ rid)] s3)
                                           \<lparr> callbacks := (n, k) # callbacks s3 \<rparr>
                                in if sdk env n = JoinThrows then Inl (Sdk_error, s4) else Inr s4
                              else Inr s3))"

definition initializeMeeting_run :: "room_env \<Rightarrow> nat \<Rightarrow> room_state \<Rightarrow> (exn \<times> room_state) + room_state" where
  \<comment> \<open>The whole function body: the guard, then \<open>try { ... } catch (error) { ... }\<close>.\<close>
  "initializeMeeting_run env k s0 =
     (let s = emit [Enter_initializeMeeting (zegoRef s0)] s0
      in if \<not> truthy (roomId env)
         then Inr (s\<lparr> connectionError := Some ''No room ID provided'' \<rparr>)
         else
           (case try_block env k s of
              Inr s' \<Rightarrow> Inr s'
            | Inl (e, s') \<Rightarrow>
                Inr ((emit [ConsoleError ''Zego initialization error:''] s')
                       \<lparr> connectionError := Some ''Failed to initialize meeting. Please try again.'' \<rparr>)))"

definition initializeMeeting :: "room_env \<Rightarrow> nat \<Rightarrow> room_state \<Rightarrow> room_state" where
  \<comment> \<open>A call of the \<open>async\<close> function as its callers make it, without \<open>await\<close>: whatever the
      body throws stays in the promise, and the caller goes on in the state the body left.\<close>
  "initializeMeeting env k s =
     (case initializeMeeting_run env k s of Inr s' \<Rightarrow> s' | Inl (e, s') \<Rightarrow> s')"

definition onNetworkStatusError :: "nat \<Rightarrow> room_state \<Rightarrow> room_state" where
  \<comment> \<open>\<open>k\<close> is the \<open>retryCount\<close> the callback closes over; \<open>setRetryCount\<close> gets an updater
      function and so works on the current value.\<close>
  "onNetworkStatusError k s =
     (let s1 = (emit [ConsoleError ''Network error:''] s)
                 \<lparr> connectionError := Some ''Network connection error. Attempting to reconnect...'' \<rparr>
      in if k < MAX_RETRIES
         then setTimeout (RetryInit k) RETRY_DELAY (s1\<lparr> retryCount := retryCount s1 + 1 \<rparr>)
         else s1\<lparr> connectionError := Some ''Maximum retry attempts reached. Please check your network.'' \<rparr>)"

definition onConnectionStateChanged :: "string \<Rightarrow> room_state \<Rightarrow> room_state" where
  "onConnectionStateChanged st s =
     (if st = ''CONNECTED'' then s\<lparr> connectionError := None, retryCount := 0 \<rparr> else s)"

definition onDeviceError :: "string \<Rightarrow> room_state \<Rightarrow> room_state" where
  "onDeviceError message s =
     (emit [ConsoleError ''Device error:''] s)\<lparr> connectionError := Some (''Device error: '' @ message) \<rparr>"

subsection \<open>Rendering, effects and events\<close>

datatype room_view =
    ErrorView string            \<comment> \<open>the static error view and its text\<close>
  | CallView "string option"    \<comment> \<open>the call container, with the banner text when the banner shows\<close>

definition render_room :: "room_env \<Rightarrow> room_state \<Rightarrow> room_view" where
  "render_room env s =
     (if \<not> truthy (roomId env) then ErrorView ''No room ID provided''
      else CallView (if truthy (connectionError s) then connectionError s else None))"

definition rerender :: "room_env \<Rightarrow> room_state \<Rightarrow> room_state" where
  \<comment> \<open>A render after state updates. \<open>initializeMeeting\<close> is a new function exactly when
      \<open>retryCount\<close> changed (the other dependencies are fixed), and then the effect that
      depends on it runs its cleanup and runs again.\<close>
  "rerender env s =
     (if mounted s \<and> \<not> unloaded s \<and> retryCount s \<noteq> renderedRetryCount s
      then initializeMeeting env (retryCount s)
             (cleanupMedia (s\<lparr> renderedRetryCount := retryCount s \<rparr>))
      else s)"

definition retry_click :: "room_env \<Rightarrow> room_state \<Rightarrow> room_state" where
  \<comment> \<open>\<open>onClick\<close> of the Retry button\<close>
  "retry_click env s =
     initializeMeeting env (renderedRetryCount s) (cleanupMedia (s\<lparr> connectionError := None \<rparr>))"

definition run_timer :: "room_env \<Rightarrow> timer_action \<Rightarrow> room_state \<Rightarrow> room_state" where
  "run_timer env a s =
     (case a of
        RetryInit k \<Rightarrow> initializeMeeting env k (cleanupMedia s)
      | Redirect \<Rightarrow> s\<lparr> unloaded := True \<rparr>)"

datatype room_event =
    NetworkStatusError nat               \<comment> \<open>the SDK calls \<open>onNetworkStatusError\<close> of this widget\<close>
  | ConnectionStateChanged nat string
  | LeaveRoom nat
  | DeviceError nat string
  | ClickRetry
  | Elapse nat                           \<comment> \<open>time passes\<close>
  | FireTimer                            \<comment> \<open>the browser runs the earliest pending timer, if it is due\<close>
  | Unmount
  | MediaChanged "nat list option" "nat list option list"

fun handle :: "room_env \<Rightarrow> room_state \<Rightarrow> room_event \<Rightarrow> room_state" where
  "handle env s (NetworkStatusError w) =
     (case map_of (callbacks s) w of None \<Rightarrow> s | Some k \<Rightarrow> onNetworkStatusError k s)"
| "handle env s (ConnectionStateChanged w st) =
     (case map_of (callbacks s) w of None \<Rightarrow> s | Some k \<Rightarrow> onConnectionStateChanged st s)"
| "handle env s (LeaveRoom w) =
     (case map_of (callbacks s) w of None \<Rightarrow> s | Some k \<Rightarrow> handleLeaveRoom s)"
| "handle env s (DeviceError w message) =
     (case map_of (callbacks s) w of None \<Rightarrow> s | Some k \<Rightarrow> onDeviceError message s)"
| "handle env s ClickRetry =
     (case render_room env s of
        CallView (Some b) \<Rightarrow> if mounted s then retry_click env s else s
      | _ \<Rightarrow> s)"
| "handle env s (Elapse d) = s\<lparr> clock := clock s + d \<rparr>"
| "handle env s FireTimer =
     (case earliest (timers s) of
        None \<Rightarrow> s
      | Some t \<Rightarrow>
          if fst t \<le> clock s
          then run_timer env (snd t) (s\<lparr> timers := remove1 t (timers s) \<rparr>)
          else s)"
| "handle env s Unmount = (if mounted s then (cleanupMedia s)\<lparr> mounted := False \<rparr> else s)"
| "handle env s (MediaChanged d e) = s\<lparr> deviceTracks := d, elementStreams := e \<rparr>"

definition step :: "room_env \<Rightarrow> room_state \<Rightarrow> room_event \<Rightarrow> room_state" where
  "step env s ev = (if unloaded s then s else rerender env (handle env s ev))"

definition initial_state :: room_state where
  "initial_state =
     \<lparr> zegoRef = None, connectionError = None, retryCount = 0, renderedRetryCount = 0,
       mounted = True, unloaded = False, callbacks = [], timers = [], clock = 0,
       nextWidget = 0, deviceTracks = None, elementStreams = [], trace = [] \<rparr>"

definition mount :: "room_env \<Rightarrow> room_state" where
  \<comment> \<open>First render and the first run of the effect.\<close>
  "mount env = initializeMeeting env 0 initial_state"

definition run :: "room_env \<Rightarrow> room_event list \<Rightarrow> room_state" where
  "run env evs = foldl (step env) (mount env) evs"

subsection \<open>The earlier revision of the room page (\<open>src/unnamed/part_000\<close>)\<close>

text \<open>
  \<open>part_000\<close> is the same page before the retry counter was added. Its \<open>cleanupMedia\<close>
  and \<open>handleLeaveRoom\<close> are the ones above, word for word. Its \<open>initializeMeeting\<close> has no
  credential checks and sets no message for a missing room identifier; its callbacks close
  over no state that changes, which \<open>callbacks\<close> records as \<open>0\<close>.
\<close>

definition try_block_000 :: "room_env \<Rightarrow> room_state \<Rightarrow> (exn \<times> room_state) + room_state" where
  "try_block_000 env s =
     (let n = nextWidget s;
          rid = (case roomId env of None \<Rightarrow> [] | Some r \<Rightarrow> r);
          name = (if truthy (user_fullName env)
                  then GivenName (case user_fullName env of None \<Rightarrow> [] | Some f \<Rightarrow> f)
                  else UserAt (clock s));
          s1 = emit [GenerateKitToken (parseInt (NEXT_PUBLIC_ZEGO_APP_ID env))
                       (NEXT_PUBLIC_ZEGO_SERVER_SECRET env) rid name MEETING_DURATION]
                 (s\<lparr> nextWidget := Suc n \<rparr>)
      in if sdk env n = TokenThrows then Inl (Sdk_error, s1)
         else
           let s2 = emit [Create n] s1
           in if sdk env n = CreateThrows then Inl (Sdk_error, s2)
              else
                let s3 = s2\<lparr> zegoRef := Some n \<rparr>
                in if mounted s3
                   then
                     let s4 = (emit [JoinRoom n (''/room/'' @ rid)] s3)
                                \<lparr> callbacks := (n, 0) # callbacks s3 \<rparr>
                     in if sdk env n = JoinThrows then Inl (Sdk_error, s4) else Inr s4
                   else Inr s3)"

definition initializeMeeting_000_run :: "room_env \<Rightarrow> room_state \<Rightarrow> (exn \<times> room_state) + room_state" where
  "initializeMeeting_000_run env s0 =
     (let s = emit [Enter_initializeMeeting (zegoRef s0)] s0
      in if \<not> truthy (roomId env) then Inr s
         else
           (case try_block_000 env s of
              Inr s' \<Rightarrow> Inr s'
            | Inl (e, s') \<Rightarrow>
                Inr ((emit [ConsoleError ''Zego initialization error:''] s')
                       \<lparr> connectionError := Some ''Failed to initialize meeting. Please try again.'' \<rparr>)))"

definition onNetworkStatusError_000 :: "room_state \<Rightarrow> room_state" where
  \<comment> \<open>No counter and no bound: every call schedules the retry. \<open>RetryInit 0\<close> stands for
      this revision's own \<open>() => { cleanupMedia(); initializeMeeting(); }\<close>.\<close>
  "onNetworkStatusError_000 s =
     setTimeout (RetryInit 0) RETRY_DELAY
       ((emit [ConsoleError ''Network error:''] s)
          \<lparr> connectionError := Some ''Network connection error. Attempting to reconnect...'' \<rparr>)"

section \<open>Reading a trace\<close>

definition entries :: "effect list \<Rightarrow> nat option list" where
  \<comment> \<open>what \<open>zegoRef.current\<close> held at each entry of \<open>initializeMeeting\<close>\<close>
  "entries tr = concat (map (\<lambda>e. case e of Enter_initializeMeeting h \<Rightarrow> [h] | _ \<Rightarrow> []) tr)"

definition destroyed :: "effect list \<Rightarrow> nat list" where
  \<comment> \<open>the widgets on which \<open>destroy\<close> was called, in order\<close>
  "destroyed tr = concat (map (\<lambda>e. case e of Destroy w \<Rightarrow> [w] | _ \<Rightarrow> []) tr)"

definition is_sdk_call :: "effect \<Rightarrow> bool" where
  \<comment> \<open>token generation, \<open>create\<close> and \<open>joinRoom\<close>\<close>
  "is_sdk_call e =
     (case e of GenerateKitToken a b c d f \<Rightarrow> True | Create w \<Rightarrow> True | JoinRoom w p \<Rightarrow> True | _ \<Rightarrow> False)"

definition sdk_calls :: "effect list \<Rightarrow> effect list" where
  "sdk_calls tr = filter is_sdk_call tr"

definition is_connected :: "room_event \<Rightarrow> bool" where
  \<comment> \<open>the connection-state callback reporting \<open>'CONNECTED'\<close>\<close>
  "is_connected ev = (case ev of ConnectionStateChanged w st \<Rightarrow> st = ''CONNECTED'' | _ \<Rightarrow> False)"

definition well_formed :: "room_state \<Rightarrow> bool" where
  \<comment> \<open>Every entry of \<open>initializeMeeting\<close> found the reference empty, no widget was destroyed
      twice, and the widget held is one that was created and not destroyed.\<close>
  "well_formed s =
     (list_all (\<lambda>h. h = None) (entries (trace s)) \<and>
      distinct (destroyed (trace s)) \<and>
      list_all (\<lambda>w. w < nextWidget s) (destroyed (trace s)) \<and>
      (case zegoRef s of None \<Rightarrow> True | Some w \<Rightarrow> w < nextWidget s \<and> w \<notin> set (destroyed (trace s))))"

section \<open>Concrete inputs\<close>

definition example_env :: room_env where
  \<comment> \<open>route \<open>/room/r\<close>, anonymous user, credentials present, an SDK that never throws\<close>
  "example_env =
     \<lparr> searchParams = [], params_roomid = Some ''r'', user_fullName = None,
       NEXT_PUBLIC_ZEGO_APP_ID = Some ''7'', NEXT_PUBLIC_ZEGO_SERVER_SECRET = Some ''s'',
       sdk = (\<lambda>n. Succeeds) \<rparr>"

definition no_room_env :: room_env where
  \<comment> \<open>\<open>?roomID=\<close> with no path segment\<close>
  "no_room_env =
     \<lparr> searchParams = [(''roomID'', [])], params_roomid = None, user_fullName = None,
       NEXT_PUBLIC_ZEGO_APP_ID = Some ''7'', NEXT_PUBLIC_ZEGO_SERVER_SECRET = Some ''s'',
       sdk = (\<lambda>n. Succeeds) \<rparr>"

definition query_env :: room_env where
  \<comment> \<open>\<open>/room/p?roomID=q\<close>\<close>
  "query_env =
     \<lparr> searchParams = [(''roomID'', ''q'')], params_roomid = Some ''p'', user_fullName = None,
       NEXT_PUBLIC_ZEGO_APP_ID = Some ''7'', NEXT_PUBLIC_ZEGO_SERVER_SECRET = Some ''s'',
       sdk = (\<lambda>n. Succeeds) \<rparr>"

definition no_app_id_env :: room_env where
  "no_app_id_env =
     \<lparr> searchParams = [], params_roomid = Some ''r'', user_fullName = None,
       NEXT_PUBLIC_ZEGO_APP_ID = None, NEXT_PUBLIC_ZEGO_SERVER_SECRET = Some ''s'',
       sdk = (\<lambda>n. Succeeds) \<rparr>"

definition throwing_env :: room_env where
  \<comment> \<open>as \<open>example_env\<close>, with an SDK whose \<open>joinRoom\<close> always throws\<close>
  "throwing_env =
     \<lparr> searchParams = [], params_roomid = Some ''r'', user_fullName = None,
       NEXT_PUBLIC_ZEGO_APP_ID = Some ''7'', NEXT_PUBLIC_ZEGO_SERVER_SECRET = Some ''s'',
       sdk = (\<lambda>n. JoinThrows) \<rparr>"

definition home_example :: home_state where
  "home_example = \<lparr> fullName = Some ''Ann'', roomIdInput = ''a b/c'', isPending = False, pushed = [] \<rparr>"

definition outage3 :: "room_event list" where
  \<comment> \<open>The network stays down and no connection is ever reported: the widget on screen
      reports a network error, five seconds later the retry timer runs, and so on, three
      times over.\<close>
  "outage3 =
     [NetworkStatusError 0, Elapse 5000, FireTimer,
      NetworkStatusError 2, Elapse 5000, FireTimer,
      NetworkStatusError 4, Elapse 5000, FireTimer]"

definition outage :: "room_event list" where
  \<comment> \<open>... and the widget made by the third retry reports the next error.\<close>
  "outage = outage3 @ [NetworkStatusError 6]"

definition outage4 :: "room_event list" where
  \<comment> \<open>... and five seconds later the timer of that error runs.\<close>
  "outage4 = outage @ [Elapse 5000, FireTimer]"

definition burst3 :: "room_event list" where
  \<comment> \<open>Three errors in quick succession, each from the widget on screen at that moment, then
      the first of the three retry timers.\<close>
  "burst3 =
     [NetworkStatusError 0, NetworkStatusError 1, NetworkStatusError 2,
      Elapse 5000, FireTimer]"

definition burst :: "room_event list" where
  \<comment> \<open>... and one more error, from the widget that timer made.\<close>
  "burst = burst3 @ [NetworkStatusError 4]"

section \<open>Properties\<close>

subsection \<open>Traces of the two functions that touch the widget\<close>

lemma entries_append [simp]: "entries (a @ b) = entries a @ entries b"
  by (simp add: entries_def)

lemma destroyed_append [simp]: "destroyed (a @ b) = destroyed a @ destroyed b"
  by (simp add: destroyed_def)

lemma sdk_calls_append [simp]: "sdk_calls (a @ b) = sdk_calls a @ sdk_calls b"
  by (simp add: sdk_calls_def)

lemma entries_StopTrack [simp]: "entries (map StopTrack ts) = []"
  by (induction ts) (simp_all add: entries_def)

lemma destroyed_StopTrack [simp]: "destroyed (map StopTrack ts) = []"
  by (induction ts) (simp_all add: destroyed_def)

lemma sdk_calls_StopTrack [simp]: "sdk_calls (map StopTrack ts) = []"
  by (induction ts) (simp_all add: sdk_calls_def is_sdk_call_def)

lemma trace_emit [simp]: "trace (emit es s) = trace s @ es"
  by (simp add: emit_def)

lemma sdk_calls_console [simp]: "sdk_calls [ConsoleError m] = []" "sdk_calls [Enter_initializeMeeting h] = []"
  by (simp_all add: sdk_calls_def is_sdk_call_def)

lemma cleanupMedia_zegoRef: "zegoRef (cleanupMedia s) = None"
  by (simp add: cleanupMedia_def emit_def Let_def split: option.splits)

lemma cleanupMedia_frame:
  "connectionError (cleanupMedia s) = connectionError s"
  "retryCount (cleanupMedia s) = retryCount s"
  "renderedRetryCount (cleanupMedia s) = renderedRetryCount s"
  "mounted (cleanupMedia s) = mounted s"
  "unloaded (cleanupMedia s) = unloaded s"
  "callbacks (cleanupMedia s) = callbacks s"
  "timers (cleanupMedia s) = timers s"
  "clock (cleanupMedia s) = clock s"
  "nextWidget (cleanupMedia s) = nextWidget s"
  "deviceTracks (cleanupMedia s) = deviceTracks s"
  "elementStreams (cleanupMedia s) = elementStreams s"
  by (simp_all add: cleanupMedia_def emit_def Let_def split: option.splits)

lemma cleanupMedia_entries: "entries (trace (cleanupMedia s)) = entries (trace s)"
  by (simp add: cleanupMedia_def emit_def Let_def entries_def split: option.splits)

lemma cleanupMedia_destroyed:
  "destroyed (trace (cleanupMedia s)) = destroyed (trace s) @ (case zegoRef s of None \<Rightarrow> [] | Some w \<Rightarrow> [w])"
  by (simp add: cleanupMedia_def emit_def Let_def split: option.splits) (simp add: destroyed_def)

lemma cleanupMedia_sdk_calls: "sdk_calls (trace (cleanupMedia s)) = sdk_calls (trace s)"
  by (simp add: cleanupMedia_def emit_def Let_def split: option.splits) (simp add: sdk_calls_def is_sdk_call_def)

lemma initializeMeeting_run_Inr: "initializeMeeting_run env k s = Inr (initializeMeeting env k s)"
  by (simp add: initializeMeeting_def initializeMeeting_run_def Let_def split: sum.splits prod.splits)

lemma initializeMeeting_frame:
  "retryCount (initializeMeeting env k s) = retryCount s"
  "renderedRetryCount (initializeMeeting env k s) = renderedRetryCount s"
  "mounted (initializeMeeting env k s) = mounted s"
  "unloaded (initializeMeeting env k s) = unloaded s"
  "timers (initializeMeeting env k s) = timers s"
  "clock (initializeMeeting env k s) = clock s"
  "deviceTracks (initializeMeeting env k s) = deviceTracks s"
  "elementStreams (initializeMeeting env k s) = elementStreams s"
  by (simp_all add: initializeMeeting_def initializeMeeting_run_def try_block_def emit_def Let_def
        split: option.splits)

lemma initializeMeeting_entries:
  "entries (trace (initializeMeeting env k s)) = entries (trace s) @ [zegoRef s]"
  by (simp add: initializeMeeting_def initializeMeeting_run_def try_block_def emit_def Let_def entries_def
        split: option.splits)

lemma initializeMeeting_destroyed:
  "destroyed (trace (initializeMeeting env k s)) = destroyed (trace s)"
  by (simp add: initializeMeeting_def initializeMeeting_run_def try_block_def emit_def Let_def destroyed_def
        split: option.splits)

lemma initializeMeeting_nextWidget:
  "nextWidget s \<le> nextWidget (initializeMeeting env k s)"
  by (simp add: initializeMeeting_def initializeMeeting_run_def try_block_def emit_def Let_def
        split: option.splits)

lemma initializeMeeting_zegoRef:
  "zegoRef (initializeMeeting env k s) = zegoRef s \<or>
   (zegoRef (initializeMeeting env k s) = Some (nextWidget s) \<and>
    nextWidget (initializeMeeting env k s) = Suc (nextWidget s))"
  by (simp add: initializeMeeting_def initializeMeeting_run_def try_block_def emit_def Let_def
        split: option.splits)

lemma initializeMeeting_no_room:
  "\<not> truthy (roomId env) \<Longrightarrow>
   initializeMeeting env k s =
     (emit [Enter_initializeMeeting (zegoRef s)] s)\<lparr> connectionError := Some ''No room ID provided'' \<rparr>"
  by (simp add: initializeMeeting_def initializeMeeting_run_def Let_def)

subsection \<open>What the network-error callback does, by the count it closes over\<close>

lemma onNetworkStatusError_effect:
  "retryCount (onNetworkStatusError k s) = (if k < MAX_RETRIES then retryCount s + 1 else retryCount s)"
  "timers (onNetworkStatusError k s) =
     (if k < MAX_RETRIES then timers s @ [(clock s + RETRY_DELAY, RetryInit k)] else timers s)"
  "connectionError (onNetworkStatusError k s) =
     Some (if k < MAX_RETRIES then ''Network connection error. Attempting to reconnect...''
           else ''Maximum retry attempts reached. Please check your network.'')"
  by (simp_all add: onNetworkStatusError_def setTimeout_def emit_def Let_def)

lemma onNetworkStatusError_000_effect:
  "timers (onNetworkStatusError_000 s) = timers s @ [(clock s + RETRY_DELAY, RetryInit 0)]"
  "connectionError (onNetworkStatusError_000 s) =
     Some ''Network connection error. Attempting to reconnect...''"
  by (simp_all add: onNetworkStatusError_000_def setTimeout_def emit_def)

lemma timer_not_before_due:
  "earliest (timers s) = Some t \<Longrightarrow> clock s < fst t \<Longrightarrow> handle env s FireTimer = s"
  by simp

lemma onConnectionStateChanged_effect:
  "onConnectionStateChanged ''CONNECTED'' s = s\<lparr> connectionError := None, retryCount := 0 \<rparr>"
  "st \<noteq> ''CONNECTED'' \<Longrightarrow> onConnectionStateChanged st s = s"
  by (simp_all add: onConnectionStateChanged_def)

subsection \<open>An invariant of every life of the room page\<close>

lemma well_formed_cleanupMedia: "well_formed s \<Longrightarrow> well_formed (cleanupMedia s)"
  by (auto simp: well_formed_def cleanupMedia_zegoRef cleanupMedia_frame cleanupMedia_entries
        cleanupMedia_destroyed split: option.splits)

lemma well_formed_initializeMeeting:
  assumes "well_formed s" and "zegoRef s = None"
  shows "well_formed (initializeMeeting env k s)"
proof -
  let ?s' = "initializeMeeting env k s"
  have d: "destroyed (trace ?s') = destroyed (trace s)"
    by (rule initializeMeeting_destroyed)
  have n: "nextWidget s \<le> nextWidget ?s'"
    by (rule initializeMeeting_nextWidget)
  have e: "list_all (\<lambda>h. h = None) (entries (trace ?s'))"
    using assms by (simp add: initializeMeeting_entries well_formed_def)
  have b: "list_all (\<lambda>w. w < nextWidget ?s') (destroyed (trace ?s'))"
    using assms(1) n unfolding d well_formed_def list_all_iff by auto
  have fresh: "nextWidget s \<notin> set (destroyed (trace s))"
    using assms(1) unfolding well_formed_def list_all_iff by auto
  have z: "case zegoRef ?s' of None \<Rightarrow> True
           | Some w \<Rightarrow> w < nextWidget ?s' \<and> w \<notin> set (destroyed (trace ?s'))"
    using initializeMeeting_zegoRef [of env k s] assms(2) fresh unfolding d by auto
  from e b z assms(1) show ?thesis
    unfolding well_formed_def d by simp
qed

lemma well_formed_reinit:
  "well_formed s \<Longrightarrow> well_formed (initializeMeeting env k (cleanupMedia s))"
  by (rule well_formed_initializeMeeting) (simp_all add: well_formed_cleanupMedia cleanupMedia_zegoRef)

lemma well_formed_frame [simp]:
  "well_formed (s\<lparr> connectionError := e \<rparr>) = well_formed s"
  "well_formed (s\<lparr> retryCount := r \<rparr>) = well_formed s"
  "well_formed (s\<lparr> renderedRetryCount := r \<rparr>) = well_formed s"
  "well_formed (s\<lparr> mounted := b \<rparr>) = well_formed s"
  "well_formed (s\<lparr> unloaded := b \<rparr>) = well_formed s"
  "well_formed (s\<lparr> callbacks := c \<rparr>) = well_formed s"
  "well_formed (s\<lparr> timers := t \<rparr>) = well_formed s"
  "well_formed (s\<lparr> clock := n \<rparr>) = well_formed s"
  "well_formed (s\<lparr> deviceTracks := d, elementStreams := m \<rparr>) = well_formed s"
  "well_formed (emit [ConsoleError msg] s) = well_formed s"
  "well_formed (setTimeout a delay s) = well_formed s"
  by (simp_all add: well_formed_def emit_def setTimeout_def entries_def destroyed_def
        cong: option.case_cong)

lemma well_formed_handle: "well_formed s \<Longrightarrow> well_formed (handle env s ev)"
proof (cases ev)
  case (NetworkStatusError w)
  then show "well_formed s \<Longrightarrow> ?thesis"
    by (simp add: onNetworkStatusError_def Let_def split: option.splits)
next
  case (ConnectionStateChanged w st)
  then show "well_formed s \<Longrightarrow> ?thesis"
    by (simp add: onConnectionStateChanged_def split: option.splits)
next
  case (LeaveRoom w)
  then show "well_formed s \<Longrightarrow> ?thesis"
    by (simp add: handleLeaveRoom_def well_formed_cleanupMedia split: option.splits)
next
  case (DeviceError w m)
  then show "well_formed s \<Longrightarrow> ?thesis"
    by (simp add: onDeviceError_def split: option.splits)
next
  case ClickRetry
  then show "well_formed s \<Longrightarrow> ?thesis"
    by (simp add: retry_click_def well_formed_reinit split: room_view.splits option.splits)
next
  case (Elapse d)
  then show "well_formed s \<Longrightarrow> ?thesis" by simp
next
  case FireTimer
  then show "well_formed s \<Longrightarrow> ?thesis"
    by (simp add: run_timer_def well_formed_reinit split: option.splits timer_action.splits)
next
  case Unmount
  then show "well_formed s \<Longrightarrow> ?thesis"
    by (simp add: well_formed_cleanupMedia)
next
  case (MediaChanged d m)
  then show "well_formed s \<Longrightarrow> ?thesis" by simp
qed

lemma well_formed_rerender: "well_formed s \<Longrightarrow> well_formed (rerender env s)"
  by (simp add: rerender_def well_formed_reinit)

lemma well_formed_step: "well_formed s \<Longrightarrow> well_formed (step env s ev)"
  by (simp add: step_def well_formed_rerender well_formed_handle)

lemma well_formed_initial: "well_formed initial_state"
  by (simp add: well_formed_def initial_state_def entries_def destroyed_def)

lemma well_formed_mount: "well_formed (mount env)"
  unfolding mount_def
  by (rule well_formed_initializeMeeting) (simp_all add: well_formed_initial, simp add: initial_state_def)

lemma run_snoc: "run env (evs @ [ev]) = step env (run env evs) ev"
  by (simp add: run_def)

lemma well_formed_run: "well_formed (run env evs)"
proof (induction evs rule: rev_induct)
  case Nil
  show ?case by (simp add: run_def well_formed_mount)
next
  case (snoc ev evs)
  then show ?case by (simp add: run_snoc well_formed_step)
qed

subsection \<open>A page without a room identifier never reaches the SDK\<close>

lemma no_room_initializeMeeting_sdk_calls:
  "\<not> truthy (roomId env) \<Longrightarrow> sdk_calls (trace (initializeMeeting env k s)) = sdk_calls (trace s)"
  by (simp add: initializeMeeting_no_room)

lemma no_room_handle:
  assumes "\<not> truthy (roomId env)"
  shows "sdk_calls (trace (handle env s ev)) = sdk_calls (trace s)"
proof (cases ev)
  case (NetworkStatusError w)
  then show ?thesis
    by (simp add: onNetworkStatusError_def setTimeout_def Let_def split: option.splits)
next
  case (ConnectionStateChanged w st)
  then show ?thesis
    by (simp add: onConnectionStateChanged_def split: option.splits)
next
  case (LeaveRoom w)
  then show ?thesis
    by (simp add: handleLeaveRoom_def setTimeout_def cleanupMedia_sdk_calls split: option.splits)
next
  case (DeviceError w m)
  then show ?thesis
    by (simp add: onDeviceError_def split: option.splits)
next
  case ClickRetry
  with assms show ?thesis
    by (simp add: render_room_def)
next
  case (Elapse d)
  then show ?thesis by simp
next
  case FireTimer
  with assms show ?thesis
    by (simp add: run_timer_def no_room_initializeMeeting_sdk_calls cleanupMedia_sdk_calls
          split: option.splits timer_action.splits)
next
  case Unmount
  then show ?thesis
    by (simp add: cleanupMedia_sdk_calls)
next
  case (MediaChanged d m)
  then show ?thesis by simp
qed

lemma no_room_step:
  assumes "\<not> truthy (roomId env)"
  shows "sdk_calls (trace (step env s ev)) = sdk_calls (trace s)"
  using assms
  by (simp add: step_def rerender_def no_room_initializeMeeting_sdk_calls cleanupMedia_sdk_calls
        no_room_handle)

lemma no_room_run:
  assumes "\<not> truthy (roomId env)"
  shows "sdk_calls (trace (run env evs)) = []"
proof (induction evs rule: rev_induct)
  case Nil
  from assms show ?case
    by (simp add: run_def mount_def no_room_initializeMeeting_sdk_calls)
       (simp add: initial_state_def sdk_calls_def)
next
  case (snoc ev evs)
  with assms show ?case by (simp add: run_snoc no_room_step)
qed

subsection \<open>The concrete runs\<close>

lemma parseInt_7: "parseInt (Some ''7'') = Some 7"
  by (simp add: parseInt_def isWhiteSpace_def radixDigit_def digitValue_def digitNat_def Let_def)

lemma parseInt_undefined: "parseInt None = None"
  by (simp add: parseInt_def isWhiteSpace_def radixDigit_def digitValue_def Let_def)

lemmas run_defs =
  run_def mount_def step_def rerender_def initializeMeeting_def initializeMeeting_run_def
  try_block_def cleanupMedia_def emit_def roomId_def js_or_def truthy_def
  onNetworkStatusError_def setTimeout_def run_timer_def retry_click_def render_room_def
  MAX_RETRIES_def RETRY_DELAY_def MEETING_DURATION_def initial_state_def Let_def
  entries_def destroyed_def

lemma run_outage3:
  "retryCount (run example_env outage3) = 3 \<and>
   timers (run example_env outage3) = [] \<and>
   zegoRef (run example_env outage3) = Some 6 \<and>
   map_of (callbacks (run example_env outage3)) 6 = Some 0 \<and>
   entries (trace (run example_env outage3)) = [None, None, None, None, None, None, None] \<and>
   destroyed (trace (run example_env outage3)) = [0, 1, 2, 3, 4, 5]"
  by (simp add: run_defs example_env_def outage3_def parseInt_7)

lemma run_outage_widgets:
  "zegoRef (run example_env []) = Some 0 \<and>
   zegoRef (run example_env (take 3 outage3)) = Some 2 \<and>
   zegoRef (run example_env (take 6 outage3)) = Some 4"
  by (simp add: run_defs example_env_def outage3_def parseInt_7)

lemma run_burst_widgets:
  "zegoRef (run example_env []) = Some 0 \<and>
   zegoRef (run example_env (take 1 burst3)) = Some 1 \<and>
   zegoRef (run example_env (take 2 burst3)) = Some 2"
  by (simp add: run_defs example_env_def burst3_def parseInt_7)

lemma run_outage:
  "retryCount (run example_env outage) = 4 \<and>
   timers (run example_env outage) = [(20000, RetryInit 0)] \<and>
   connectionError (run example_env outage) =
     Some ''Network connection error. Attempting to reconnect...''"
  by (simp add: run_defs example_env_def outage_def outage3_def parseInt_7)

lemma run_outage4:
  "timers (run example_env outage4) = [] \<and>
   zegoRef (run example_env outage4) = Some 8 \<and>
   destroyed (trace (run example_env outage4)) = [0, 1, 2, 3, 4, 5, 6, 7]"
  by (simp add: run_defs example_env_def outage4_def outage_def outage3_def parseInt_7)

lemma run_burst3:
  "retryCount (run example_env burst3) = 3 \<and>
   zegoRef (run example_env burst3) = Some 4 \<and>
   map_of (callbacks (run example_env burst3)) 4 = Some 0 \<and>
   destroyed (trace (run example_env burst3)) = [0, 1, 2, 3]"
  by (simp add: run_defs example_env_def burst3_def parseInt_7)

lemma run_burst:
  "retryCount (run example_env burst) = 4"
  by (simp add: run_defs example_env_def burst_def burst3_def parseInt_7)

lemma throwing:
  "isl (try_block throwing_env 0 (emit [Enter_initializeMeeting (zegoRef initial_state)] initial_state)) \<and>
   zegoRef (initializeMeeting throwing_env 0 initial_state) = Some 0"
  by (simp add: run_defs throwing_env_def parseInt_7)

lemma initializeMeeting_000_run_Inr: "\<exists>s'. initializeMeeting_000_run env s = Inr s'"
  by (simp add: initializeMeeting_000_run_def Let_def split: sum.splits prod.splits)

section \<open>The claims\<close>

text \<open>
  Claim C1. Every network-error callback sets the connection-error message and, after
  \<open>RETRY_DELAY\<close>, releases the widget and calls \<open>initializeMeeting\<close> again, at most
  \<open>MAX_RETRIES = 3\<close> times without a connection in between; then
  \<open>Maximum retry attempts reached. Please check your network.\<close> is shown and no retry is
  scheduled. The page does not keep to the bound. The callback tests the \<open>retryCount\<close> it
  closed over, and the timer calls the \<open>initializeMeeting\<close> of the render that scheduled
  it, so the widget a retry makes tests an old count. In the run \<open>outage\<close> no connection is
  ever reported, every error comes from the widget then held (0, 2, 4 and 6), and three
  retries have run (the counter stands at \<open>MAX_RETRIES\<close>, no timer
  is pending); the next error of the widget on screen schedules a fourth retry and shows
  the reconnecting message, and five seconds later that retry runs: it destroys widget 7
  and makes widget 8.
\<close>

theorem C1_fourth_retry_runs:
  "\<not> list_ex is_connected outage4 \<and>
   zegoRef (run example_env []) = Some 0 \<and>
   zegoRef (run example_env (take 3 outage3)) = Some 2 \<and>
   zegoRef (run example_env (take 6 outage3)) = Some 4 \<and>
   retryCount (run example_env outage3) = MAX_RETRIES \<and>
   timers (run example_env outage3) = [] \<and>
   zegoRef (run example_env outage3) = Some 6 \<and>
   timers (run example_env outage) = [(20000, RetryInit 0)] \<and>
   connectionError (run example_env outage) =
     Some ''Network connection error. Attempting to reconnect...'' \<and>
   timers (run example_env outage4) = [] \<and>
   zegoRef (run example_env outage4) = Some 8 \<and>
   destroyed (trace (run example_env outage4)) = [0, 1, 2, 3, 4, 5, 6, 7]"
proof -
  have "\<not> list_ex is_connected outage4"
    by (simp add: outage4_def outage_def outage3_def is_connected_def)
  then show ?thesis
    by (simp add: run_outage_widgets run_outage3 run_outage run_outage4 MAX_RETRIES_def)
qed

text \<open>
  Claim C2. When neither the \<open>roomID\<close> query parameter nor the \<open>roomid\<close> path segment is a
  non-empty string, the page renders the static error view with the text
  \<open>No room ID provided\<close>, and \<open>initializeMeeting\<close> returns after setting that message, with
  no token generated and no call of \<open>create\<close> or \<open>joinRoom\<close>; over a whole life of the page,
  whatever the events, no such call is ever made.
\<close>

theorem C2_no_room_id_no_join:
  assumes "\<not> truthy (map_of (searchParams env) ''roomID'')"
    and "\<not> truthy (params_roomid env)"
  shows "render_room env s = ErrorView ''No room ID provided'' \<and>
         initializeMeeting_run env k s =
           Inr ((emit [Enter_initializeMeeting (zegoRef s)] s)
                  \<lparr> connectionError := Some ''No room ID provided'' \<rparr>) \<and>
         sdk_calls (trace (initializeMeeting env k s)) = sdk_calls (trace s) \<and>
         sdk_calls (trace (run env evs)) = []"
proof -
  from assms have r: "\<not> truthy (roomId env)"
    by (simp add: roomId_def js_or_def)
  then show ?thesis
    by (simp add: render_room_def initializeMeeting_run_Inr initializeMeeting_no_room no_room_run)
qed

theorem C2_witness:
  "\<not> truthy (map_of (searchParams no_room_env) ''roomID'') \<and>
   \<not> truthy (params_roomid no_room_env) \<and>
   render_room no_room_env initial_state = ErrorView ''No room ID provided'' \<and>
   sdk_calls (trace (run no_room_env [ClickRetry, Unmount])) = []"
proof -
  have a: "\<not> truthy (map_of (searchParams no_room_env) ''roomID'')"
    by (simp add: no_room_env_def truthy_def)
  have b: "\<not> truthy (params_roomid no_room_env)"
    by (simp add: no_room_env_def truthy_def)
  from C2_no_room_id_no_join [OF a b, of initial_state 0 "[ClickRetry, Unmount]"] a b
  show ?thesis by simp
qed

text \<open>
  Claim C3. The home page renders the room controls (room-id input, Connect and Create Room
  buttons, which are one fragment) exactly when the display name is a non-empty string of
  length at least 3; a name of length 0, 1 or 2 hides them.
\<close>

theorem C3_controls_iff_name_length:
  "(render_home s \<noteq> None) =
     (case fullName s of None \<Rightarrow> False | Some n \<Rightarrow> n \<noteq> [] \<and> 3 \<le> length n) \<and>
   (\<forall>n. fullName s = Some n \<and> length n \<in> {0, 1, 2} \<longrightarrow> render_home s = None)"
  by (auto simp: render_home_def split: option.splits)

theorem C3_witness:
  "render_home home_example \<noteq> None \<and>
   render_home (home_example\<lparr> fullName := Some ''An'' \<rparr>) = None"
  using C3_controls_iff_name_length [of home_example]
        C3_controls_iff_name_length [of "home_example\<lparr> fullName := Some ''An'' \<rparr>"]
  by (simp add: home_example_def)

text \<open>
  Claim C4. With a room identifier present, if the application identifier does not parse as
  a number or the server secret is absent (or empty), the \<open>try\<close> block throws before any
  SDK call and \<open>initializeMeeting\<close> sets the connection error to
  \<open>Failed to initialize meeting. Please try again.\<close>
\<close>

theorem C4_credentials_failure:
  assumes "truthy (roomId env)"
    and "parseInt (NEXT_PUBLIC_ZEGO_APP_ID env) = None \<or> \<not> truthy (NEXT_PUBLIC_ZEGO_SERVER_SECRET env)"
  shows "(\<exists>e. try_block env k (emit [Enter_initializeMeeting (zegoRef s)] s) =
                Inl (e, emit [Enter_initializeMeeting (zegoRef s)] s)) \<and>
         connectionError (initializeMeeting env k s) =
           Some ''Failed to initialize meeting. Please try again.'' \<and>
         zegoRef (initializeMeeting env k s) = zegoRef s \<and>
         sdk_calls (trace (initializeMeeting env k s)) = sdk_calls (trace s)"
proof -
  let ?s = "emit [Enter_initializeMeeting (zegoRef s)] s"
  from assms(2) have t: "\<exists>e. try_block env k ?s = Inl (e, ?s)"
    by (auto simp: try_block_def truthy_def split: option.splits)
  then obtain e where e: "try_block env k ?s = Inl (e, ?s)" ..
  with assms(1) have i: "initializeMeeting env k s =
      (emit [ConsoleError ''Zego initialization error:''] ?s)
        \<lparr> connectionError := Some ''Failed to initialize meeting. Please try again.'' \<rparr>"
    by (simp add: initializeMeeting_def initializeMeeting_run_def Let_def)
  show ?thesis
    unfolding i using t by (simp add: emit_def sdk_calls_def is_sdk_call_def)
qed

theorem C4_witness:
  "truthy (roomId no_app_id_env) \<and>
   parseInt (NEXT_PUBLIC_ZEGO_APP_ID no_app_id_env) = None \<and>
   connectionError (initializeMeeting no_app_id_env 0 initial_state) =
     Some ''Failed to initialize meeting. Please try again.''"
proof -
  have a: "truthy (roomId no_app_id_env)"
    by (simp add: no_app_id_env_def roomId_def js_or_def truthy_def)
  have b: "parseInt (NEXT_PUBLIC_ZEGO_APP_ID no_app_id_env) = None"
    by (simp add: no_app_id_env_def parseInt_undefined)
  from b have c: "parseInt (NEXT_PUBLIC_ZEGO_APP_ID no_app_id_env) = None \<or>
                  \<not> truthy (NEXT_PUBLIC_ZEGO_SERVER_SECRET no_app_id_env)" ..
  from C4_credentials_failure [OF a c, of 0 initial_state] a b
  show ?thesis by simp
qed

text \<open>
  Claim C5. No failure of \<open>initializeMeeting\<close> reaches its caller: the body always ends
  normally, whatever the \<open>try\<close> block throws (invalid credentials, a throwing SDK call), and
  a failure leaves the retry counter and the timers as they were and sets the
  connection-error message. The same holds for the body in \<open>part_000\<close>.
\<close>

theorem C5_no_exception_escapes:
  "initializeMeeting_run env k s = Inr (initializeMeeting env k s) \<and>
   retryCount (initializeMeeting env k s) = retryCount s \<and>
   timers (initializeMeeting env k s) = timers s \<and>
   mounted (initializeMeeting env k s) = mounted s \<and>
   unloaded (initializeMeeting env k s) = unloaded s \<and>
   (truthy (roomId env) \<and>
    isl (try_block env k (emit [Enter_initializeMeeting (zegoRef s)] s)) \<longrightarrow>
      connectionError (initializeMeeting env k s) =
        Some ''Failed to initialize meeting. Please try again.'') \<and>
   (\<exists>s'. initializeMeeting_000_run env s = Inr s' \<and>
      retryCount s' = retryCount s \<and> timers s' = timers s \<and>
      (truthy (roomId env) \<and>
       isl (try_block_000 env (emit [Enter_initializeMeeting (zegoRef s)] s)) \<longrightarrow>
         connectionError s' = Some ''Failed to initialize meeting. Please try again.''))"
proof -
  have a: "truthy (roomId env) \<and>
      isl (try_block env k (emit [Enter_initializeMeeting (zegoRef s)] s)) \<longrightarrow>
      connectionError (initializeMeeting env k s) =
        Some ''Failed to initialize meeting. Please try again.''"
    by (auto simp: initializeMeeting_def initializeMeeting_run_def Let_def isl_def)
  have b: "\<exists>s'. initializeMeeting_000_run env s = Inr s' \<and>
      retryCount s' = retryCount s \<and> timers s' = timers s \<and>
      (truthy (roomId env) \<and>
       isl (try_block_000 env (emit [Enter_initializeMeeting (zegoRef s)] s)) \<longrightarrow>
         connectionError s' = Some ''Failed to initialize meeting. Please try again.'')"
    by (simp add: initializeMeeting_000_run_def try_block_000_def emit_def Let_def)
  from a b show ?thesis
    by (simp add: initializeMeeting_run_Inr initializeMeeting_frame)
qed

theorem C5_witness:
  "truthy (roomId throwing_env) \<and>
   isl (try_block throwing_env 0 (emit [Enter_initializeMeeting (zegoRef initial_state)] initial_state)) \<and>
   initializeMeeting_run throwing_env 0 initial_state =
     Inr (initializeMeeting throwing_env 0 initial_state) \<and>
   connectionError (initializeMeeting throwing_env 0 initial_state) =
     Some ''Failed to initialize meeting. Please try again.''"
proof -
  have a: "truthy (roomId throwing_env)"
    by (simp add: throwing_env_def roomId_def js_or_def truthy_def)
  have b: "isl (try_block throwing_env 0
                  (emit [Enter_initializeMeeting (zegoRef initial_state)] initial_state))"
    by (simp add: throwing)
  from C5_no_exception_escapes [of throwing_env 0 initial_state] a b
  show ?thesis by simp
qed

text \<open>
  Claim C6. With a non-empty room-id input, \<open>handleConnect\<close> pushes the route \<open>/room/\<close>
  followed by the input exactly as typed; \<open>handleCreateRoom\<close> pushes \<open>/room/\<close> followed by
  what \<open>uuid()\<close> returned. When the controls are rendered and no navigation is pending, a
  click on either button runs its handler.
\<close>

theorem C6_connect_and_create_routes:
  "(roomIdInput s \<noteq> [] \<longrightarrow>
      pushed (handleConnect s) = pushed s @ [''/room/'' @ roomIdInput s]) \<and>
   pushed (handleCreateRoom u s) = pushed s @ [''/room/'' @ u] \<and>
   (render_home s \<noteq> None \<and> \<not> isPending s \<and> roomIdInput s \<noteq> [] \<longrightarrow>
      home_step s ClickConnect = handleConnect s \<and>
      home_step s (ClickCreateRoom u) = handleCreateRoom u s)"
  by (auto simp: handleConnect_def handleCreateRoom_def startTransition_push_def render_home_def
        isRoomIdValid_def split: option.splits if_splits)

theorem C6_witness:
  "roomIdInput home_example \<noteq> [] \<and>
   pushed (home_step home_example ClickConnect) = [''/room/a b/c''] \<and>
   pushed (home_step home_example (ClickCreateRoom ''0f8fad5b-d9cb-469f-a165-70867728950e'')) =
     [''/room/0f8fad5b-d9cb-469f-a165-70867728950e'']"
proof -
  have a: "roomIdInput home_example \<noteq> []"
    by (simp add: home_example_def)
  have b: "render_home home_example \<noteq> None" "\<not> isPending home_example" "pushed home_example = []"
    "roomIdInput home_example = ''a b/c''"
    by (simp_all add: home_example_def render_home_def)
  from C6_connect_and_create_routes
         [of home_example "''0f8fad5b-d9cb-469f-a165-70867728950e''"] a b
  show ?thesis by simp
qed

text \<open>
  Claim C7. \<open>cleanupMedia\<close> destroys the widget held, if any, and empties the reference;
  the retry timer, the Retry button and the re-run of the effect call it before
  \<open>initializeMeeting\<close>, and unmounting calls it; so in every life of the page, whatever the
  events, each entry of \<open>initializeMeeting\<close> finds the reference empty.
\<close>

theorem C7_reference_cleared_before_initialize:
  "zegoRef (cleanupMedia s) = None \<and>
   destroyed (trace (cleanupMedia s)) =
     destroyed (trace s) @ (case zegoRef s of None \<Rightarrow> [] | Some w \<Rightarrow> [w]) \<and>
   run_timer env (RetryInit k) s = initializeMeeting env k (cleanupMedia s) \<and>
   retry_click env s =
     initializeMeeting env (renderedRetryCount s) (cleanupMedia (s\<lparr> connectionError := None \<rparr>)) \<and>
   zegoRef (handle env s Unmount) = (if mounted s then None else zegoRef s) \<and>
   list_all (\<lambda>h. h = None) (entries (trace (run env evs)))"
proof -
  have "well_formed (run env evs)"
    by (rule well_formed_run)
  then have "list_all (\<lambda>h. h = None) (entries (trace (run env evs)))"
    by (simp add: well_formed_def)
  then show ?thesis
    by (simp add: cleanupMedia_zegoRef cleanupMedia_destroyed run_timer_def retry_click_def)
qed

theorem C7_witness:
  "entries (trace (run example_env outage3)) = [None, None, None, None, None, None, None] \<and>
   list_all (\<lambda>h. h = None) (entries (trace (run example_env outage3)))"
  using C7_reference_cleared_before_initialize [of initial_state example_env 0 outage3]
  by (simp add: run_outage3)

text \<open>
  Claim C8. A non-empty \<open>roomID\<close> query parameter is the room identifier whatever the path
  segment is; when the query parameter is absent or empty, the path segment is used; an
  empty query value with no path segment gives the error view.
\<close>

theorem C8_query_parameter_first:
  "(map_of (searchParams env) ''roomID'' = Some q \<and> q \<noteq> [] \<longrightarrow> roomId env = Some q) \<and>
   (map_of (searchParams env) ''roomID'' = None \<or> map_of (searchParams env) ''roomID'' = Some []
      \<longrightarrow> roomId env = params_roomid env) \<and>
   (map_of (searchParams env) ''roomID'' = Some [] \<and> params_roomid env = None
      \<longrightarrow> render_room env s = ErrorView ''No room ID provided'')"
  by (auto simp: roomId_def js_or_def truthy_def render_room_def)

theorem C8_witness:
  "roomId query_env = Some ''q'' \<and>
   roomId example_env = params_roomid example_env \<and>
   render_room no_room_env initial_state = ErrorView ''No room ID provided''"
proof -
  have a: "map_of (searchParams query_env) ''roomID'' = Some ''q''"
    by (simp add: query_env_def)
  have b: "map_of (searchParams example_env) ''roomID'' = None"
    by (simp add: example_env_def)
  have c: "map_of (searchParams no_room_env) ''roomID'' = Some []" "params_roomid no_room_env = None"
    by (simp_all add: no_room_env_def)
  from C8_query_parameter_first [of query_env "''q''" initial_state] a
  have 1: "roomId query_env = Some ''q''" by simp
  from C8_query_parameter_first [of example_env "[]" initial_state] b
  have 2: "roomId example_env = params_roomid example_env" by simp
  from C8_query_parameter_first [of no_room_env "[]" initial_state] c
  have 3: "render_room no_room_env initial_state = ErrorView ''No room ID provided''" by simp
  from 1 2 3 show ?thesis by simp
qed

text \<open>
  Claim C9. The retry counter stays within \<open>0 .. MAX_RETRIES\<close> in every reachable state.
  It does not: the guard \<open>retryCount < MAX_RETRIES\<close> reads the count the callback closed
  over, while the increment works on the current count. In the run \<open>burst\<close> the counter is
  at \<open>MAX_RETRIES\<close> when the first retry timer makes widget 4 with the callbacks of the
  first render; an error of that widget, which is the one on screen, raises the counter
  to 4.
\<close>

theorem C9_counter_exceeds_bound:
  "zegoRef (run example_env []) = Some 0 \<and>
   zegoRef (run example_env (take 1 burst3)) = Some 1 \<and>
   zegoRef (run example_env (take 2 burst3)) = Some 2 \<and>
   zegoRef (run example_env burst3) = Some 4 \<and>
   retryCount (run example_env burst3) = MAX_RETRIES \<and>
   retryCount (run example_env burst) = 4 \<and>
   MAX_RETRIES < retryCount (run example_env burst)"
  using run_burst_widgets run_burst3 run_burst by (simp add: MAX_RETRIES_def)

text \<open>
  Claim C10. After \<open>cleanupMedia\<close> the widget reference is empty; a second call right after
  finds it empty and destroys nothing; and in every life of the page, whatever the events,
  no widget is destroyed twice.
\<close>

theorem C10_destroy_at_most_once:
  "zegoRef (cleanupMedia s) = None \<and>
   zegoRef (cleanupMedia (cleanupMedia s)) = None \<and>
   destroyed (trace (cleanupMedia (cleanupMedia s))) = destroyed (trace (cleanupMedia s)) \<and>
   distinct (destroyed (trace (run env evs)))"
proof -
  have "well_formed (run env evs)"
    by (rule well_formed_run)
  then have "distinct (destroyed (trace (run env evs)))"
    by (simp add: well_formed_def)
  then show ?thesis
    by (simp add: cleanupMedia_zegoRef cleanupMedia_destroyed [of "cleanupMedia s"])
qed

theorem C10_witness:
  "destroyed (trace (run example_env burst3)) = [0, 1, 2, 3] \<and>
   distinct (destroyed (trace (run example_env burst3)))"
  using C10_destroy_at_most_once [of initial_state example_env burst3]
  by (simp add: run_burst3)

end
